theory Spec2Isabelle
  imports Main "HOL-Library.Sublist"
begin

section \<open>DuneGuide: the retrieval and prompt pipeline of app.py\<close>

text \<open>
  The program is one Streamlit script. Each interaction re-runs \<^verbatim>\<open>main\<close>; the only state
  that survives a run is \<^verbatim>\<open>st.session_state["conversation_history"]\<close>. The vector store
  (\<^verbatim>\<open>db.query\<close>) and the hosted model (\<^verbatim>\<open>generate_content\<close>) are external
  services: they are parameters of the model, and every call made to them is recorded as an
  event, so that "is invoked" and "is never invoked" are statements about the event trace.
\<close>

subsection \<open>Python strings\<close>

text \<open>
  A string is the list of its characters. The code compares characters only with the two
  ASCII quote characters and tests a string only for emptiness, so text beyond ASCII can be
  read as its UTF-8 bytes: no byte of a longer sequence equals an ASCII character.

  \<^verbatim>\<open>str.replace(old, new)\<close>: left to right, non-overlapping occurrences of \<open>old\<close>; an
  empty \<open>old\<close> matches before every character and at the end.
\<close>

function str_replace :: "string \<Rightarrow> string \<Rightarrow> string \<Rightarrow> string" where
  "str_replace old new [] = (if old = [] then new else [])"
| "str_replace old new (c # cs) =
     (if old = [] then new @ c # str_replace old new cs
      else if prefix old (c # cs)
        then new @ str_replace old new (drop (length old) (c # cs))
      else c # str_replace old new cs)"
  by pat_completeness auto
termination
  by (relation "measure (\<lambda>(old, new, s). length s)") auto

text \<open>\<^verbatim>\<open>sep.join(xs)\<close>: the elements of \<open>xs\<close> with \<open>sep\<close> between neighbours.\<close>

fun str_join :: "string \<Rightarrow> string list \<Rightarrow> string" where
  "str_join sep [] = []"
| "str_join sep [x] = x"
| "str_join sep (x # y # ys) = x @ sep @ str_join sep (y # ys)"

subsection \<open>The prompt template\<close>

text \<open>
  The f-string of \<^verbatim>\<open>make_prompt\<close> has three literal segments: the text before
  \<^verbatim>\<open>{query}\<close>, the text between \<^verbatim>\<open>{query}\<close> and \<^verbatim>\<open>{escaped}\<close>, and the text after
  \<^verbatim>\<open>{escaped}\<close>. Four of its lines end in a blank before the line break.
\<close>

definition persona_text :: string where
  "persona_text =
     ''You are a chatbot specializing in helping users find deals for tourist attractions in Dubai.''"

definition disambiguation_text :: string where
  "disambiguation_text =
     ''Also note that for Burj Khalifa only return Burj Khalifa deals and for burj al arab only return burj al arab deals.''"

definition prompt_head :: string where
  "prompt_head =
     ''\<newline>    '' @ persona_text @ '' \<newline>'' @
     ''\<newline>    User'' @ [CHR 0x27] @ ''s question: ''"

definition prompt_mid :: string where
  "prompt_mid =
     ''\<newline>\<newline>    Context information about available deals:\<newline>    ''"

definition prompt_tail :: string where
  "prompt_tail =
     ''\<newline>\<newline>    Your response must be detailed, friendly, and helpful. \<newline>'' @
     ''    Provide recommendations for deals related to the user'' @ [CHR 0x27] @
       ''s query, including:\<newline>'' @
     ''    - Attraction name\<newline>'' @
     ''    - Deal description\<newline>'' @
     ''    - Price (in AED and USD, assuming a fixed exchange rate)\<newline>'' @
     ''    - Relevant tips (e.g., operating hours, best visit times, nearby attractions)\<newline>'' @
     ''\<newline>'' @
     ''    Ensure the response is conversational and encourages the user to ask follow-up questions. \<newline>'' @
     ''    '' @ disambiguation_text @ '' \<newline>'' @
     ''    ''"

definition make_prompt :: "string \<Rightarrow> string \<Rightarrow> string" where
  "make_prompt query relevant_passage =
     (let escaped = str_replace [CHR 0x22] [] (str_replace [CHR 0x27] [] relevant_passage)
      in prompt_head @ query @ prompt_mid @ escaped @ prompt_tail)"

definition convert_passages_to_string :: "string list \<Rightarrow> string" where
  "convert_passages_to_string passages = str_join ''\<newline>'' passages"

subsection \<open>Exceptions, external services and the event trace\<close>

text \<open>
  \<^verbatim>\<open>except Exception\<close> catches every instance of \<^verbatim>\<open>Exception\<close>; the other
  \<^verbatim>\<open>BaseException\<close>s (\<^verbatim>\<open>KeyboardInterrupt\<close>, \<^verbatim>\<open>SystemExit\<close>) pass through it.
  The string is what \<^verbatim>\<open>str(e)\<close> gives.
\<close>

datatype py_exception = Exception string | BaseException string

text \<open>
  The \<^verbatim>\<open>QueryResult\<close> of the vector store: the code reads only its \<^verbatim>\<open>documents\<close>
  entry, which is \<^verbatim>\<open>None\<close> or one list of documents per query text.
\<close>

record query_result =
  documents :: "string list list option"

text \<open>
  \<^verbatim>\<open>db.query(query_texts, n_results)\<close> raises or returns; a falsy result (\<^verbatim>\<open>None\<close>, an
  empty dict) is \<open>None\<close>. \<^verbatim>\<open>GenerativeModel(model_name).generate_content(prompt).text\<close>
  raises or gives the completion.
\<close>

type_synonym collection = "string list \<Rightarrow> int \<Rightarrow> py_exception + query_result option"

type_synonym generative_model = "string \<Rightarrow> string \<Rightarrow> py_exception + string"

datatype event =
    DbQuery "string list" int
  | StError string
  | GenerateContent string string
  | StMarkdown string

subsection \<open>The passage retriever\<close>

text \<open>
  The third argument is \<open>None\<close> when the caller omits \<^verbatim>\<open>n_results\<close>, which then takes its
  default. The result pairs the events of the call with what the caller sees: an exception
  that propagates, or the returned value (\<open>None\<close> for Python's \<^verbatim>\<open>None\<close>).
\<close>

definition get_relevant_passages ::
  "string \<Rightarrow> collection \<Rightarrow> int option \<Rightarrow> event list \<times> (py_exception + string list option)" where
  "get_relevant_passages query db n_results_arg =
     (let n_results = (case n_results_arg of None \<Rightarrow> 10 | Some n \<Rightarrow> n) in
      case db [query] n_results of
        Inr result \<Rightarrow>
          ([DbQuery [query] n_results],
           Inr (case result of
                  None \<Rightarrow> None
                | Some r \<Rightarrow>
                    (case documents r of
                       None \<Rightarrow> None
                     | Some [] \<Rightarrow> None
                     | Some (d # ds) \<Rightarrow> Some d)))
      | Inl (Exception e) \<Rightarrow>
          ([DbQuery [query] n_results, StError (''Error querying database: '' @ e)], Inr None)
      | Inl (BaseException e) \<Rightarrow>
          ([DbQuery [query] n_results], Inl (BaseException e)))"

subsection \<open>The conversation log and the interactive turn\<close>

record message =
  role :: string
  content :: string

text \<open>\<^verbatim>\<open>st.session_state\<close>: the key \<^verbatim>\<open>conversation_history\<close> is absent (\<open>None\<close>) or holds the log.\<close>

record session_state =
  conversation_history :: "message list option"

text \<open>
  One run of the script: the events it produced, the session state it leaves behind (the
  appends happen in place, so they survive an exception), and whether it ran to its end.
\<close>

record run =
  trace :: "event list"
  session :: session_state
  outcome :: "py_exception + unit"

definition fallback_text :: string where
  "fallback_text =
     ''Sorry, I couldn'' @ [CHR 0x27] @ ''t find any relevant deals. Please try another query!''"

definition render_message :: "message \<Rightarrow> event" where
  "render_message m =
     (if role m = ''user'' then StMarkdown (''**You:** '' @ content m)
      else StMarkdown (''**DuneGuide:** '' @ content m))"

text \<open>
  \<^verbatim>\<open>main\<close>, from the initialisation of the session state on. \<open>db\<close> is the handle that
  \<^verbatim>\<open>loadVectorDataBase\<close> returned, \<open>genai\<close> the hosted model, \<open>user_query\<close> the value of
  the text input. The page configuration, title and welcome text before it are fixed output
  and touch neither the log nor the services.
\<close>

definition main :: "collection \<Rightarrow> generative_model \<Rightarrow> string \<Rightarrow> session_state \<Rightarrow> run" where
  "main db genai user_query st =
     (let history0 = (case conversation_history st of None \<Rightarrow> [] | Some h \<Rightarrow> h) in
      if user_query \<noteq> [] then
        (let history1 = history0 @ [\<lparr>role = ''user'', content = user_query\<rparr>] in
         case get_relevant_passages user_query db (Some 5) of
           (ev, Inl e) \<Rightarrow>
             \<lparr>trace = ev, session = \<lparr>conversation_history = Some history1\<rparr>, outcome = Inl e\<rparr>
         | (ev, Inr (Some (p # ps))) \<Rightarrow>
             (let context = convert_passages_to_string (p # ps);
                  prompt = make_prompt user_query context
              in case genai ''gemini-pro'' prompt of
                   Inl e \<Rightarrow>
                     \<lparr>trace = ev @ [GenerateContent ''gemini-pro'' prompt],
                      session = \<lparr>conversation_history = Some history1\<rparr>,
                      outcome = Inl e\<rparr>
                 | Inr response_text \<Rightarrow>
                     (let history2 = history1 @ [\<lparr>role = ''assistant'', content = response_text\<rparr>]
                      in \<lparr>trace = ev @ [GenerateContent ''gemini-pro'' prompt]
                                   @ map render_message history2,
                          session = \<lparr>conversation_history = Some history2\<rparr>,
                          outcome = Inr ()\<rparr>))
         | (ev, Inr _) \<Rightarrow>
             (let response_text = fallback_text;
                  history2 = history1 @ [\<lparr>role = ''assistant'', content = response_text\<rparr>]
              in \<lparr>trace = ev @ map render_message history2,
                  session = \<lparr>conversation_history = Some history2\<rparr>,
                  outcome = Inr ()\<rparr>))
      else
        \<lparr>trace = map render_message history0,
         session = \<lparr>conversation_history = Some history0\<rparr>,
         outcome = Inr ()\<rparr>)"

text \<open>
  A session is a sequence of runs over the same session state, one per interaction, each
  with the services as they answer then and the text the input holds then. A run that an
  exception cut short still hands its session state to the next run.
\<close>

fun script_runs :: "session_state \<Rightarrow> (collection \<times> generative_model \<times> string) list \<Rightarrow> run list" where
  "script_runs st [] = []"
| "script_runs st ((db, genai, user_query) # rest) =
     main db genai user_query st # script_runs (session (main db genai user_query st)) rest"

definition session_start :: session_state where
  "session_start = \<lparr>conversation_history = None\<rparr>"

definition log_of :: "session_state \<Rightarrow> message list" where
  "log_of st = (case conversation_history st of None \<Rightarrow> [] | Some h \<Rightarrow> h)"

fun session_after :: "session_state \<Rightarrow> (collection \<times> generative_model \<times> string) list \<Rightarrow> session_state" where
  "session_after st [] = st"
| "session_after st ((db, genai, user_query) # rest) =
     session_after (session (main db genai user_query st)) rest"

subsection \<open>Properties of the log\<close>

text \<open>
  \<open>user_then_assistant\<close>: every user message but possibly the last is followed by an
  assistant message. \<open>turns_paired\<close>: the log is a sequence of pairs, a user message and
  then one assistant message.
\<close>

fun user_then_assistant :: "message list \<Rightarrow> bool" where
  "user_then_assistant [] = True"
| "user_then_assistant [m] = True"
| "user_then_assistant (m # n # ms) =
     ((role m \<noteq> ''user'' \<or> role n = ''assistant'') \<and> user_then_assistant (n # ms))"

fun turns_paired :: "message list \<Rightarrow> bool" where
  "turns_paired [] = True"
| "turns_paired [m] = False"
| "turns_paired (m # n # ms) =
     (role m = ''user'' \<and> role n = ''assistant'' \<and> turns_paired ms)"

subsection \<open>Reading the event trace\<close>

fun is_db_query :: "event \<Rightarrow> bool" where
  "is_db_query (DbQuery query_texts n_results) = True"
| "is_db_query e = False"

fun is_generate_content :: "event \<Rightarrow> bool" where
  "is_generate_content (GenerateContent model_name prompt) = True"
| "is_generate_content e = False"

fun is_markdown :: "event \<Rightarrow> bool" where
  "is_markdown (StMarkdown line) = True"
| "is_markdown e = False"

text \<open>
  An answer of the store holds no document when it is falsy, when its \<^verbatim>\<open>documents\<close> entry
  is \<^verbatim>\<open>None\<close>, or when every list in that entry is empty.
\<close>

definition returns_zero_documents :: "query_result option \<Rightarrow> bool" where
  "returns_zero_documents result =
     (case result of
        None \<Rightarrow> True
      | Some r \<Rightarrow> (case documents r of None \<Rightarrow> True | Some dss \<Rightarrow> concat dss = []))"

subsection \<open>Example services\<close>

text \<open>
  A store that answers each query text with the first \<open>n_results\<close> of its documents, a
  store whose call fails, a model that answers and a model whose call fails.
\<close>

definition store_with :: "string list \<Rightarrow> collection" where
  "store_with docs query_texts n_results =
     Inr (Some \<lparr>documents = Some (map (\<lambda>q. take (nat n_results) docs) query_texts)\<rparr>)"

definition failing_store :: collection where
  "failing_store query_texts n_results = Inl (Exception ''connection refused'')"

definition answering_model :: generative_model where
  "answering_model model_name prompt = Inr ''Here are some deals.''"

definition failing_model :: generative_model where
  "failing_model model_name prompt = Inl (Exception ''response blocked'')"

section \<open>Verification\<close>

subsection \<open>String operations and the filled template\<close>

text \<open>
  Replacing a one-character string by the empty string deletes that character and nothing
  else, so the two replacements of \<^verbatim>\<open>make_prompt\<close> amount to one filter.
\<close>

lemma str_replace_char: "str_replace [a] [] s = filter (\<lambda>c. c \<noteq> a) s"
  by (induction s) auto

lemma escaped_filter:
  "str_replace [CHR 0x22] [] (str_replace [CHR 0x27] [] s) =
     filter (\<lambda>c. c \<noteq> CHR 0x27 \<and> c \<noteq> CHR 0x22) s"
  by (simp add: str_replace_char conj_commute)

lemma make_prompt_eq:
  "make_prompt query relevant_passage =
     prompt_head @ query @ prompt_mid @
     filter (\<lambda>c. c \<noteq> CHR 0x27 \<and> c \<noteq> CHR 0x22) relevant_passage @ prompt_tail"
  by (simp add: make_prompt_def escaped_filter)

lemma no_quotes_left:
  "CHR 0x27 \<notin> set (filter (\<lambda>c. c \<noteq> CHR 0x27 \<and> c \<noteq> CHR 0x22) s)"
  "CHR 0x22 \<notin> set (filter (\<lambda>c. c \<noteq> CHR 0x27 \<and> c \<noteq> CHR 0x22) s)"
  by simp_all

lemma str_join_Cons: "str_join sep (x # xs) = x @ concat (map (\<lambda>y. sep @ y) xs)"
  by (induction xs arbitrary: x) auto

lemma sublist_in_middle: "ys = ps @ xs @ ss \<Longrightarrow> sublist xs ys"
  by (auto simp: sublist_def)

lemma persona_in_prompt: "sublist persona_text (make_prompt query relevant_passage)"
proof (rule sublist_in_middle)
  show "make_prompt query relevant_passage =
          ''\<newline>    '' @ persona_text @
          ('' \<newline>\<newline>    User'' @ [CHR 0x27] @ ''s question: '' @ query @ prompt_mid @
           filter (\<lambda>c. c \<noteq> CHR 0x27 \<and> c \<noteq> CHR 0x22) relevant_passage @ prompt_tail)"
    by (simp add: make_prompt_eq prompt_head_def)
qed

lemma disambiguation_in_prompt: "sublist disambiguation_text (make_prompt query relevant_passage)"
proof (rule sublist_in_middle)
  show "make_prompt query relevant_passage =
          (prompt_head @ query @ prompt_mid @
           filter (\<lambda>c. c \<noteq> CHR 0x27 \<and> c \<noteq> CHR 0x22) relevant_passage @
           ''\<newline>\<newline>    Your response must be detailed, friendly, and helpful. \<newline>'' @
           ''    Provide recommendations for deals related to the user'' @ [CHR 0x27] @
             ''s query, including:\<newline>'' @
           ''    - Attraction name\<newline>'' @
           ''    - Deal description\<newline>'' @
           ''    - Price (in AED and USD, assuming a fixed exchange rate)\<newline>'' @
           ''    - Relevant tips (e.g., operating hours, best visit times, nearby attractions)\<newline>'' @
           ''\<newline>'' @
           ''    Ensure the response is conversational and encourages the user to ask follow-up questions. \<newline>'' @
           ''    '') @ disambiguation_text @ '' \<newline>    ''"
    by (simp add: make_prompt_eq prompt_tail_def)
qed

lemma query_in_prompt: "sublist query (make_prompt query relevant_passage)"
  by (rule sublist_in_middle [where ps = prompt_head]) (simp add: make_prompt_eq)

subsection \<open>The branches of a run\<close>

lemma main_no_query:
  "main db genai [] st =
     \<lparr>trace = map render_message (log_of st),
      session = \<lparr>conversation_history = Some (log_of st)\<rparr>,
      outcome = Inr ()\<rparr>"
  by (simp add: main_def log_of_def Let_def)

lemma main_retrieval_propagates:
  assumes "user_query \<noteq> []"
    and "get_relevant_passages user_query db (Some 5) = (ev, Inl e)"
  shows "main db genai user_query st =
     \<lparr>trace = ev,
      session = \<lparr>conversation_history =
        Some (log_of st @ [\<lparr>role = ''user'', content = user_query\<rparr>])\<rparr>,
      outcome = Inl e\<rparr>"
  using assms by (simp add: main_def log_of_def Let_def)

lemma main_fallback:
  assumes "user_query \<noteq> []"
    and "get_relevant_passages user_query db (Some 5) = (ev, Inr passages)"
    and "passages = None \<or> passages = Some []"
  shows "main db genai user_query st =
     \<lparr>trace = ev @ map render_message
        (log_of st @ [\<lparr>role = ''user'', content = user_query\<rparr>,
                      \<lparr>role = ''assistant'', content = fallback_text\<rparr>]),
      session = \<lparr>conversation_history =
        Some (log_of st @ [\<lparr>role = ''user'', content = user_query\<rparr>,
                           \<lparr>role = ''assistant'', content = fallback_text\<rparr>])\<rparr>,
      outcome = Inr ()\<rparr>"
  using assms by (auto simp: main_def log_of_def Let_def)

lemma main_generation_raises:
  assumes "user_query \<noteq> []"
    and "get_relevant_passages user_query db (Some 5) = (ev, Inr (Some (p # ps)))"
    and "genai ''gemini-pro'' (make_prompt user_query (convert_passages_to_string (p # ps))) = Inl e"
  shows "main db genai user_query st =
     \<lparr>trace = ev @ [GenerateContent ''gemini-pro''
                (make_prompt user_query (convert_passages_to_string (p # ps)))],
      session = \<lparr>conversation_history =
        Some (log_of st @ [\<lparr>role = ''user'', content = user_query\<rparr>])\<rparr>,
      outcome = Inl e\<rparr>"
  using assms by (simp add: main_def log_of_def Let_def)

lemma main_generation_returns:
  assumes "user_query \<noteq> []"
    and "get_relevant_passages user_query db (Some 5) = (ev, Inr (Some (p # ps)))"
    and "genai ''gemini-pro'' (make_prompt user_query (convert_passages_to_string (p # ps)))
           = Inr response_text"
  shows "main db genai user_query st =
     \<lparr>trace = ev @ [GenerateContent ''gemini-pro''
                (make_prompt user_query (convert_passages_to_string (p # ps)))]
          @ map render_message
              (log_of st @ [\<lparr>role = ''user'', content = user_query\<rparr>,
                            \<lparr>role = ''assistant'', content = response_text\<rparr>]),
      session = \<lparr>conversation_history =
        Some (log_of st @ [\<lparr>role = ''user'', content = user_query\<rparr>,
                           \<lparr>role = ''assistant'', content = response_text\<rparr>])\<rparr>,
      outcome = Inr ()\<rparr>"
  using assms by (simp add: main_def log_of_def Let_def)

lemma run_cases [case_names no_query propagates fallback generation]:
  assumes "user_query = [] \<Longrightarrow> P"
    and "\<And>ev e. \<lbrakk>user_query \<noteq> [];
            get_relevant_passages user_query db (Some 5) = (ev, Inl e)\<rbrakk> \<Longrightarrow> P"
    and "\<And>ev passages. \<lbrakk>user_query \<noteq> [];
            get_relevant_passages user_query db (Some 5) = (ev, Inr passages);
            passages = None \<or> passages = Some []\<rbrakk> \<Longrightarrow> P"
    and "\<And>ev p ps. \<lbrakk>user_query \<noteq> [];
            get_relevant_passages user_query db (Some 5) = (ev, Inr (Some (p # ps)))\<rbrakk> \<Longrightarrow> P"
  shows P
proof (cases "user_query = []")
  case True
  then show ?thesis by (rule assms(1))
next
  case False
  obtain ev r where grp: "get_relevant_passages user_query db (Some 5) = (ev, r)"
    by (cases "get_relevant_passages user_query db (Some 5)")
  show ?thesis
  proof (cases r)
    case (Inl e)
    with False grp show ?thesis by (simp add: assms(2))
  next
    case (Inr passages)
    show ?thesis
    proof (cases passages)
      case None
      with False grp Inr show ?thesis using assms(3) by simp
    next
      case (Some found)
      with False grp Inr show ?thesis using assms(3,4) by (cases found) simp_all
    qed
  qed
qed

subsection \<open>What a run leaves in the trace\<close>

lemma get_relevant_passages_events:
  "filter is_db_query (fst (get_relevant_passages query db n_results_arg)) =
     [DbQuery [query] (case n_results_arg of None \<Rightarrow> 10 | Some n \<Rightarrow> n)]"
  by (simp add: get_relevant_passages_def Let_def split: sum.split py_exception.split)

lemma get_relevant_passages_no_generation:
  "filter is_generate_content (fst (get_relevant_passages query db n_results_arg)) = []"
  by (simp add: get_relevant_passages_def Let_def split: sum.split py_exception.split)

lemma get_relevant_passages_no_markdown:
  "filter is_markdown (fst (get_relevant_passages query db n_results_arg)) = []"
  by (simp add: get_relevant_passages_def Let_def split: sum.split py_exception.split)

lemma render_message_kind:
  "is_markdown (render_message m)"
  "\<not> is_generate_content (render_message m)"
  "\<not> is_db_query (render_message m)"
  by (simp_all add: render_message_def)

lemma render_is_markdown: "filter is_markdown (map render_message log) = map render_message log"
  by (induction log) (simp_all add: render_message_kind)

lemma render_no_generation: "filter is_generate_content (map render_message log) = []"
  by (induction log) (simp_all add: render_message_kind)

lemma render_no_db_query: "filter is_db_query (map render_message log) = []"
  by (induction log) (simp_all add: render_message_kind)

lemma get_relevant_passages_caught:
  assumes "db [query] n = Inl (Exception e)"
  shows "get_relevant_passages query db (Some n) =
           ([DbQuery [query] n, StError (''Error querying database: '' @ e)], Inr None)"
  using assms by (simp add: get_relevant_passages_def)

lemma main_generation_event:
  assumes "user_query \<noteq> []"
    and "get_relevant_passages user_query db (Some 5) = (ev, Inr (Some (p # ps)))"
  shows "filter is_generate_content (trace (main db genai user_query st)) =
           [GenerateContent ''gemini-pro''
              (make_prompt user_query (convert_passages_to_string (p # ps)))]"
proof -
  have ev: "filter is_generate_content ev = []"
    using get_relevant_passages_no_generation [of user_query db "Some 5"] assms(2) by simp
  show ?thesis
  proof (cases "genai ''gemini-pro''
                  (make_prompt user_query (convert_passages_to_string (p # ps)))")
    case (Inl e)
    from main_generation_raises [where genai = genai and st = st, OF assms Inl] ev show ?thesis by simp
  next
    case (Inr response_text)
    from main_generation_returns [where genai = genai and st = st, OF assms Inr] ev show ?thesis
      by (simp add: render_no_generation render_message_kind)
  qed
qed

lemma main_without_generation:
  assumes "\<not> (\<exists>p ps. snd (get_relevant_passages user_query db (Some 5)) = Inr (Some (p # ps)))"
  shows "filter is_generate_content (trace (main db genai user_query st)) = []"
proof (cases rule: run_cases [where user_query = user_query and db = db])
  case no_query
  then show ?thesis by (simp add: main_no_query render_no_generation)
next
  case (propagates ev e)
  have "filter is_generate_content ev = []"
    using get_relevant_passages_no_generation [of user_query db "Some 5"] propagates(2) by simp
  with main_retrieval_propagates [OF propagates, of genai st] show ?thesis by simp
next
  case (fallback ev passages)
  have "filter is_generate_content ev = []"
    using get_relevant_passages_no_generation [of user_query db "Some 5"] fallback(2) by simp
  with main_fallback [OF fallback, of genai st] show ?thesis
    by (simp add: render_no_generation render_message_kind)
next
  case (generation ev p ps)
  with assms show ?thesis by simp
qed

lemma main_db_query:
  assumes "user_query \<noteq> []"
  shows "filter is_db_query (trace (main db genai user_query st)) = [DbQuery [user_query] 5]"
proof -
  obtain ev r where grp: "get_relevant_passages user_query db (Some 5) = (ev, r)"
    by (cases "get_relevant_passages user_query db (Some 5)")
  have ev: "filter is_db_query ev = [DbQuery [user_query] 5]"
    using get_relevant_passages_events [of user_query db "Some 5"] grp by simp
  show ?thesis
  proof (cases rule: run_cases [where user_query = user_query and db = db])
    case no_query
    with assms show ?thesis by simp
  next
    case (propagates ev' e)
    with main_retrieval_propagates [OF propagates, of genai st] ev grp show ?thesis by simp
  next
    case (fallback ev' passages)
    with main_fallback [OF fallback, of genai st] ev grp show ?thesis
      by (simp add: render_no_db_query render_message_kind)
  next
    case (generation ev' p ps)
    show ?thesis
    proof (cases "genai ''gemini-pro''
                    (make_prompt user_query (convert_passages_to_string (p # ps)))")
      case (Inl e)
      from main_generation_raises [where genai = genai and st = st, OF generation Inl] ev grp generation(2)
      show ?thesis by simp
    next
      case (Inr response_text)
      from main_generation_returns [where genai = genai and st = st, OF generation Inr] ev grp generation(2)
      show ?thesis by (simp add: render_no_db_query render_message_kind)
    qed
  qed
qed

lemma main_markdown:
  assumes "outcome (main db genai user_query st) = Inr ()"
  shows "filter is_markdown (trace (main db genai user_query st)) =
           map render_message (log_of (session (main db genai user_query st)))"
proof (cases rule: run_cases [where user_query = user_query and db = db])
  case no_query
  then show ?thesis by (simp add: main_no_query render_is_markdown log_of_def)
next
  case (propagates ev e)
  with main_retrieval_propagates [OF propagates, of genai st] assms show ?thesis by simp
next
  case (fallback ev passages)
  have "filter is_markdown ev = []"
    using get_relevant_passages_no_markdown [of user_query db "Some 5"] fallback(2) by simp
  with main_fallback [OF fallback, of genai st] show ?thesis
    by (simp add: render_is_markdown render_message_kind log_of_def)
next
  case (generation ev p ps)
  have ev: "filter is_markdown ev = []"
    using get_relevant_passages_no_markdown [of user_query db "Some 5"] generation(2) by simp
  show ?thesis
  proof (cases "genai ''gemini-pro''
                  (make_prompt user_query (convert_passages_to_string (p # ps)))")
    case (Inl e)
    from main_generation_raises [where genai = genai and st = st, OF generation Inl] assms show ?thesis by simp
  next
    case (Inr response_text)
    from main_generation_returns [where genai = genai and st = st, OF generation Inr] ev show ?thesis
      by (simp add: render_is_markdown render_message_kind log_of_def)
  qed
qed

subsection \<open>The shape of the log\<close>

lemma turns_paired_append:
  "turns_paired log \<Longrightarrow>
     turns_paired (log @ [u, a]) = (role u = ''user'' \<and> role a = ''assistant'')"
  by (induction log rule: turns_paired.induct) auto

lemma user_then_assistant_Cons:
  "role n \<noteq> ''user'' \<Longrightarrow> user_then_assistant ms \<Longrightarrow> user_then_assistant (n # ms)"
  by (cases ms) auto

lemma turns_paired_ordered: "turns_paired log \<Longrightarrow> user_then_assistant log"
  by (induction log rule: turns_paired.induct) (auto simp: user_then_assistant_Cons)

lemma user_then_assistant_nth:
  "user_then_assistant log =
     (\<forall>i. Suc i < length log \<longrightarrow> role (log ! i) = ''user'' \<longrightarrow>
          role (log ! Suc i) = ''assistant'')"
proof (induction log rule: user_then_assistant.induct)
  case 1
  show ?case by simp
next
  case (2 m)
  show ?case by simp
next
  case (3 m n ms)
  have "(\<forall>i. Suc i < length (m # n # ms) \<longrightarrow> role ((m # n # ms) ! i) = ''user'' \<longrightarrow>
             role ((m # n # ms) ! Suc i) = ''assistant'') =
        ((role m = ''user'' \<longrightarrow> role n = ''assistant'') \<and>
         (\<forall>i. Suc i < length (n # ms) \<longrightarrow> role ((n # ms) ! i) = ''user'' \<longrightarrow>
             role ((n # ms) ! Suc i) = ''assistant''))"
    (is "?all = (?first \<and> ?others)")
  proof
    assume all: ?all
    from all [rule_format, of 0] have ?first by simp
    moreover have ?others
    proof (intro allI impI)
      fix i
      assume "Suc i < length (n # ms)" "role ((n # ms) ! i) = ''user''"
      with all [rule_format, of "Suc i"] show "role ((n # ms) ! Suc i) = ''assistant''"
        by simp
    qed
    ultimately show "?first \<and> ?others" by blast
  next
    assume both: "?first \<and> ?others"
    show ?all
    proof (intro allI impI)
      fix i
      assume "Suc i < length (m # n # ms)" "role ((m # n # ms) ! i) = ''user''"
      with both show "role ((m # n # ms) ! Suc i) = ''assistant''"
        by (cases i) auto
    qed
  qed
  with 3 show ?case by auto
qed

lemma main_keeps_pairs:
  assumes "turns_paired (log_of st)"
    and "outcome (main db genai user_query st) = Inr ()"
  shows "turns_paired (log_of (session (main db genai user_query st)))"
proof (cases rule: run_cases [where user_query = user_query and db = db])
  case no_query
  with assms(1) show ?thesis by (simp add: main_no_query log_of_def)
next
  case (propagates ev e)
  with main_retrieval_propagates [OF propagates, of genai st] assms(2) show ?thesis by simp
next
  case (fallback ev passages)
  from main_fallback [OF fallback, of genai st] assms(1) show ?thesis
    by (simp add: log_of_def turns_paired_append)
next
  case (generation ev p ps)
  show ?thesis
  proof (cases "genai ''gemini-pro''
                  (make_prompt user_query (convert_passages_to_string (p # ps)))")
    case (Inl e)
    from main_generation_raises [where genai = genai and st = st, OF generation Inl] assms(2)
    show ?thesis by simp
  next
    case (Inr response_text)
    from main_generation_returns [where genai = genai and st = st, OF generation Inr] assms(1)
    show ?thesis by (simp add: log_of_def turns_paired_append)
  qed
qed

lemma session_keeps_pairs:
  "turns_paired (log_of st) \<Longrightarrow>
   \<forall>r \<in> set (script_runs st inputs). outcome r = Inr () \<Longrightarrow>
   turns_paired (log_of (session_after st inputs))"
proof (induction inputs arbitrary: st)
  case Nil
  then show ?case by simp
next
  case (Cons x rest)
  obtain db genai user_query where x: "x = (db, genai, user_query)"
    by (cases x)
  from Cons.prems have completed: "outcome (main db genai user_query st) = Inr ()"
    and later: "\<forall>r \<in> set (script_runs (session (main db genai user_query st)) rest).
                  outcome r = Inr ()"
    by (simp_all add: x)
  from main_keeps_pairs [OF Cons.prems(1) completed] later
  have "turns_paired (log_of (session_after (session (main db genai user_query st)) rest))"
    by (rule Cons.IH)
  then show ?case by (simp add: x)
qed

section \<open>The claims of the specification\<close>

subsection \<open>C1: the fallback turn\<close>

text \<open>
  Claim C1. A turn is a run whose text input is non-empty (\<^verbatim>\<open>if user_query:\<close>). When the
  backend call of the retrieval raises an error, or the retriever returns \<^verbatim>\<open>None\<close> or an
  empty list, the turn appends the user message and then an assistant message whose content
  is the fixed fallback text, the trace of the run holds no call of the generation client,
  and the run ends normally.
\<close>

theorem fallback_without_generation:
  assumes "user_query \<noteq> []"
    and "db [user_query] 5 = Inl (Exception e)
         \<or> snd (get_relevant_passages user_query db (Some 5)) = Inr None
         \<or> snd (get_relevant_passages user_query db (Some 5)) = Inr (Some [])"
  shows "log_of (session (main db genai user_query st)) =
           log_of st @ [\<lparr>role = ''user'', content = user_query\<rparr>,
                        \<lparr>role = ''assistant'', content = fallback_text\<rparr>]
         \<and> filter is_generate_content (trace (main db genai user_query st)) = []
         \<and> outcome (main db genai user_query st) = Inr ()"
proof -
  obtain ev r where grp: "get_relevant_passages user_query db (Some 5) = (ev, r)"
    by (cases "get_relevant_passages user_query db (Some 5)")
  from assms(2) have "r = Inr None \<or> r = Inr (Some [])"
    using grp get_relevant_passages_caught [of db user_query 5 e] by auto
  then obtain passages where r: "r = Inr passages"
    and empty: "passages = None \<or> passages = Some []"
    by auto
  have ev: "filter is_generate_content ev = []"
    using get_relevant_passages_no_generation [of user_query db "Some 5"] grp by simp
  show ?thesis
    using main_fallback [OF assms(1) grp [unfolded r] empty, of genai st] ev
    by (simp add: log_of_def render_no_generation render_message_kind)
qed

text \<open>
  Scenario B of the specification, "desert safari" on an empty store, and the same query on
  a store whose call fails.
\<close>

theorem fallback_without_generation_witness:
  "log_of (session (main (store_with []) answering_model ''desert safari'' session_start)) =
     [\<lparr>role = ''user'', content = ''desert safari''\<rparr>,
      \<lparr>role = ''assistant'',
       content = ''Sorry, I couldn'' @ [CHR 0x27]
                   @ ''t find any relevant deals. Please try another query!''\<rparr>]
   \<and> filter is_generate_content
         (trace (main (store_with []) answering_model ''desert safari'' session_start)) = []
   \<and> log_of (session (main failing_store answering_model ''desert safari'' session_start)) =
     [\<lparr>role = ''user'', content = ''desert safari''\<rparr>,
      \<lparr>role = ''assistant'',
       content = ''Sorry, I couldn'' @ [CHR 0x27]
                   @ ''t find any relevant deals. Please try another query!''\<rparr>]
   \<and> filter is_generate_content
         (trace (main failing_store answering_model ''desert safari'' session_start)) = []"
proof -
  have empty: "snd (get_relevant_passages ''desert safari'' (store_with []) (Some 5))
                 = Inr (Some [])"
    by (simp add: get_relevant_passages_def store_with_def)
  have fails: "failing_store [''desert safari''] 5 = Inl (Exception ''connection refused'')"
    by (simp add: failing_store_def)
  show ?thesis
    using fallback_without_generation
            [where user_query = "''desert safari''" and db = "store_with []"
               and genai = answering_model and st = session_start]
          fallback_without_generation
            [where user_query = "''desert safari''" and db = failing_store
               and e = "''connection refused''"
               and genai = answering_model and st = session_start]
    by (simp add: empty fails log_of_def session_start_def fallback_text_def)
qed

subsection \<open>C2: the composed prompt holds the query and a quote-free context\<close>

text \<open>
  Claim C2. When the retriever returns at least one passage for a query, the prompt composed
  from them is the template filled with the query and with the context section; the query
  occurs in it literally; the context section holds neither \<^verbatim>\<open>'\<close> nor \<^verbatim>\<open>"\<close>. In a
  turn, this prompt is the one sent to the generation client.
\<close>

theorem composed_prompt_query_and_context:
  assumes "get_relevant_passages user_query db (Some 5) = (ev, Inr (Some (p # ps)))"
  shows "make_prompt user_query (convert_passages_to_string (p # ps)) =
           prompt_head @ user_query @ prompt_mid @
           filter (\<lambda>c. c \<noteq> CHR 0x27 \<and> c \<noteq> CHR 0x22) (convert_passages_to_string (p # ps)) @
           prompt_tail
         \<and> sublist user_query (make_prompt user_query (convert_passages_to_string (p # ps)))
         \<and> CHR 0x27 \<notin> set (filter (\<lambda>c. c \<noteq> CHR 0x27 \<and> c \<noteq> CHR 0x22)
                                 (convert_passages_to_string (p # ps)))
         \<and> CHR 0x22 \<notin> set (filter (\<lambda>c. c \<noteq> CHR 0x27 \<and> c \<noteq> CHR 0x22)
                                 (convert_passages_to_string (p # ps)))
         \<and> (user_query \<noteq> [] \<longrightarrow>
              filter is_generate_content (trace (main db genai user_query st)) =
                [GenerateContent ''gemini-pro''
                   (make_prompt user_query (convert_passages_to_string (p # ps)))])"
  using make_prompt_eq [of user_query "convert_passages_to_string (p # ps)"]
        query_in_prompt [of user_query "convert_passages_to_string (p # ps)"]
        no_quotes_left [of "convert_passages_to_string (p # ps)"]
        main_generation_event [where genai = genai and st = st, OF _ assms]
  by blast

text \<open>A store with two passages that carry quote characters.\<close>

theorem composed_prompt_query_and_context_witness:
  "filter is_generate_content
     (trace (main (store_with [''Kids'' @ [CHR 0x27] @ '' ticket'', [CHR 0x22] @ ''Sky'' @ [CHR 0x22]])
               answering_model ''Burj Khalifa deals'' session_start)) =
     [GenerateContent ''gemini-pro''
        (prompt_head @ ''Burj Khalifa deals'' @ prompt_mid @ ''Kids ticket\<newline>Sky'' @ prompt_tail)]
   \<and> CHR 0x27 \<notin> set ''Kids ticket\<newline>Sky'' \<and> CHR 0x22 \<notin> set ''Kids ticket\<newline>Sky''"
proof -
  have found: "get_relevant_passages ''Burj Khalifa deals''
       (store_with [''Kids'' @ [CHR 0x27] @ '' ticket'', [CHR 0x22] @ ''Sky'' @ [CHR 0x22]]) (Some 5) =
     ([DbQuery [''Burj Khalifa deals''] 5],
      Inr (Some [''Kids'' @ [CHR 0x27] @ '' ticket'', [CHR 0x22] @ ''Sky'' @ [CHR 0x22]]))"
    by (simp add: get_relevant_passages_def store_with_def)
  show ?thesis
    using composed_prompt_query_and_context
            [where genai = answering_model and st = session_start, OF found]
    by (simp add: convert_passages_to_string_def)
qed

subsection \<open>C3: what the retriever returns when nothing is found\<close>

text \<open>
  Claim C3, as the code has it. An \<^verbatim>\<open>Exception\<close> of the backend call is caught: the
  retriever reports it through \<^verbatim>\<open>st.error\<close> and returns \<^verbatim>\<open>None\<close>. It also returns
  \<^verbatim>\<open>None\<close> when the answer is falsy or its \<^verbatim>\<open>documents\<close> entry is \<^verbatim>\<open>None\<close> or an
  empty list. When the \<^verbatim>\<open>documents\<close> entry holds an empty list for the query, the
  retriever returns that empty list, not \<^verbatim>\<open>None\<close>. So an answer without documents gives
  \<^verbatim>\<open>None\<close> or the empty list.
\<close>

theorem retriever_null_or_empty:
  "(db [query] n = Inl (Exception e) \<longrightarrow>
      get_relevant_passages query db (Some n) =
        ([DbQuery [query] n, StError (''Error querying database: '' @ e)], Inr None))
   \<and> (db [query] n = Inr None \<longrightarrow>
        snd (get_relevant_passages query db (Some n)) = Inr None)
   \<and> (db [query] n = Inr (Some r) \<and> (documents r = None \<or> documents r = Some []) \<longrightarrow>
        snd (get_relevant_passages query db (Some n)) = Inr None)
   \<and> (db [query] n = Inr (Some r) \<and> documents r = Some ([] # rest) \<longrightarrow>
        snd (get_relevant_passages query db (Some n)) = Inr (Some []))
   \<and> (db [query] n = Inr result \<and> returns_zero_documents result \<longrightarrow>
        snd (get_relevant_passages query db (Some n)) = Inr None
        \<or> snd (get_relevant_passages query db (Some n)) = Inr (Some []))"
  by (auto simp: get_relevant_passages_def returns_zero_documents_def
           split: option.splits list.splits)

text \<open>A store whose call fails, and a store that finds nothing for the query.\<close>

theorem retriever_null_or_empty_witness:
  "get_relevant_passages ''desert safari'' failing_store (Some 5) =
     ([DbQuery [''desert safari''] 5, StError ''Error querying database: connection refused''],
      Inr None)
   \<and> snd (get_relevant_passages ''desert safari'' (store_with []) (Some 5)) = Inr (Some [])"
  using retriever_null_or_empty
          [where db = failing_store and query = "''desert safari''" and n = 5
             and e = "''connection refused''"]
        retriever_null_or_empty
          [where db = "store_with []" and query = "''desert safari''" and n = 5
             and r = "\<lparr>documents = Some [[]]\<rparr>" and rest = "[]"]
  by (simp add: failing_store_def store_with_def)

text \<open>
  The claim as worded, "returns null whenever the vector store returns zero documents",
  fails on the empty store: its answer \<^verbatim>\<open>{'documents': [[]]}\<close> holds no document, the
  outer list is truthy, and the retriever returns the inner empty list.
\<close>

theorem retriever_null_counterexample:
  "store_with [] [''desert safari''] 5 = Inr (Some \<lparr>documents = Some [[]]\<rparr>)
   \<and> returns_zero_documents (Some \<lparr>documents = Some [[]]\<rparr>)
   \<and> snd (get_relevant_passages ''desert safari'' (store_with []) (Some 5)) = Inr (Some [])
   \<and> snd (get_relevant_passages ''desert safari'' (store_with []) (Some 5)) \<noteq> Inr None"
  by (simp add: get_relevant_passages_def store_with_def returns_zero_documents_def)

subsection \<open>C4: the ordering of the log\<close>

text \<open>
  Claim C4, as the code has it. In a session that starts with an empty log, as long as
  every run so far ran to its end, the log is a sequence of pairs of a user message and one
  assistant message; in particular every user message at index \<open>i\<close> is followed by an
  assistant message at index \<open>i + 1\<close>.
\<close>

theorem log_ordering_when_runs_complete:
  assumes "\<forall>r \<in> set (script_runs session_start inputs). outcome r = Inr ()"
  shows "turns_paired (log_of (session_after session_start inputs))
         \<and> (\<forall>i. Suc i < length (log_of (session_after session_start inputs)) \<longrightarrow>
                role (log_of (session_after session_start inputs) ! i) = ''user'' \<longrightarrow>
                role (log_of (session_after session_start inputs) ! Suc i) = ''assistant'')"
proof -
  have "turns_paired (log_of session_start)"
    by (simp add: log_of_def session_start_def)
  then have paired: "turns_paired (log_of (session_after session_start inputs))"
    using assms by (rule session_keeps_pairs)
  then have "user_then_assistant (log_of (session_after session_start inputs))"
    by (rule turns_paired_ordered)
  with paired show ?thesis
    by (simp only: user_then_assistant_nth) 
qed

text \<open>Two completed turns: one answered by the model, one by the fallback.\<close>

theorem log_ordering_when_runs_complete_witness:
  "log_of (session_after session_start
     [(store_with [''Dune bashing 99 AED''], answering_model, ''desert safari''),
      (store_with [], answering_model, ''burj khalifa'')]) =
     [\<lparr>role = ''user'', content = ''desert safari''\<rparr>,
      \<lparr>role = ''assistant'', content = ''Here are some deals.''\<rparr>,
      \<lparr>role = ''user'', content = ''burj khalifa''\<rparr>,
      \<lparr>role = ''assistant'', content = fallback_text\<rparr>]
   \<and> turns_paired (log_of (session_after session_start
     [(store_with [''Dune bashing 99 AED''], answering_model, ''desert safari''),
      (store_with [], answering_model, ''burj khalifa'')]))"
proof -
  have runs: "\<forall>r \<in> set (script_runs session_start
       [(store_with [''Dune bashing 99 AED''], answering_model, ''desert safari''),
        (store_with [], answering_model, ''burj khalifa'')]). outcome r = Inr ()"
    by (simp add: main_def get_relevant_passages_def store_with_def answering_model_def
          session_start_def)
  have log: "log_of (session_after session_start
       [(store_with [''Dune bashing 99 AED''], answering_model, ''desert safari''),
        (store_with [], answering_model, ''burj khalifa'')]) =
     [\<lparr>role = ''user'', content = ''desert safari''\<rparr>,
      \<lparr>role = ''assistant'', content = ''Here are some deals.''\<rparr>,
      \<lparr>role = ''user'', content = ''burj khalifa''\<rparr>,
      \<lparr>role = ''assistant'', content = fallback_text\<rparr>]"
    by (simp add: main_def get_relevant_passages_def store_with_def answering_model_def
          session_start_def log_of_def)
  from log_ordering_when_runs_complete [OF runs] log show ?thesis
    by (simp only:)
qed

text \<open>
  Without the condition the ordering fails. The user message is appended before the
  generation client is called, and an exception of that call is not caught: the run stops
  with the user message as the last entry. The next turn, which completes, appends its own
  user message right after it.
\<close>

theorem log_ordering_counterexample:
  "outcome (main (store_with [''Dune bashing 99 AED'']) failing_model ''desert safari''
              session_start) = Inl (Exception ''response blocked'')
   \<and> outcome (main (store_with []) answering_model ''burj khalifa''
       (session (main (store_with [''Dune bashing 99 AED'']) failing_model ''desert safari''
                   session_start))) = Inr ()
   \<and> log_of (session (main (store_with []) answering_model ''burj khalifa''
       (session (main (store_with [''Dune bashing 99 AED'']) failing_model ''desert safari''
                   session_start)))) =
       [\<lparr>role = ''user'', content = ''desert safari''\<rparr>,
        \<lparr>role = ''user'', content = ''burj khalifa''\<rparr>,
        \<lparr>role = ''assistant'', content = fallback_text\<rparr>]
   \<and> \<not> user_then_assistant (log_of (session (main (store_with []) answering_model ''burj khalifa''
       (session (main (store_with [''Dune bashing 99 AED'']) failing_model ''desert safari''
                   session_start)))))"
  by (simp add: main_def get_relevant_passages_def store_with_def answering_model_def
        failing_model_def session_start_def log_of_def)

subsection \<open>C5: the prompt composer\<close>

text \<open>
  Claim C5. For every query and every list of passages: the context block is the passages
  joined by line breaks; the prompt is the fixed template with the query and with the block
  from which exactly the characters \<^verbatim>\<open>'\<close> and \<^verbatim>\<open>"\<close> were deleted, every other
  character kept in place; the template carries the persona text and the Burj Khalifa and
  Burj Al Arab instruction; and the prompt is returned whole, its length the sum of the
  lengths of its parts.
\<close>

theorem prompt_composer:
  "convert_passages_to_string passages =
     (case passages of [] \<Rightarrow> [] | p # rest \<Rightarrow> p @ concat (map (\<lambda>r. ''\<newline>'' @ r) rest))
   \<and> make_prompt query (convert_passages_to_string passages) =
       prompt_head @ query @ prompt_mid @
       filter (\<lambda>c. c \<noteq> CHR 0x27 \<and> c \<noteq> CHR 0x22) (convert_passages_to_string passages) @
       prompt_tail
   \<and> sublist persona_text (make_prompt query (convert_passages_to_string passages))
   \<and> sublist disambiguation_text (make_prompt query (convert_passages_to_string passages))
   \<and> length (make_prompt query (convert_passages_to_string passages)) =
       length prompt_head + length query + length prompt_mid +
       length (filter (\<lambda>c. c \<noteq> CHR 0x27 \<and> c \<noteq> CHR 0x22) (convert_passages_to_string passages)) +
       length prompt_tail"
proof -
  have joined: "convert_passages_to_string passages =
     (case passages of [] \<Rightarrow> [] | p # rest \<Rightarrow> p @ concat (map (\<lambda>r. ''\<newline>'' @ r) rest))"
  proof (cases passages)
    case Nil
    then show ?thesis by (simp add: convert_passages_to_string_def)
  next
    case (Cons p rest)
    then show ?thesis
      by (simp only: convert_passages_to_string_def str_join_Cons list.case)
  qed
  have filled: "make_prompt query (convert_passages_to_string passages) =
       prompt_head @ query @ prompt_mid @
       filter (\<lambda>c. c \<noteq> CHR 0x27 \<and> c \<noteq> CHR 0x22) (convert_passages_to_string passages) @
       prompt_tail"
    by (rule make_prompt_eq)
  have whole: "length (make_prompt query (convert_passages_to_string passages)) =
       length prompt_head + length query + length prompt_mid +
       length (filter (\<lambda>c. c \<noteq> CHR 0x27 \<and> c \<noteq> CHR 0x22) (convert_passages_to_string passages)) +
       length prompt_tail"
    by (simp only: filled length_append)
  from joined filled whole persona_in_prompt disambiguation_in_prompt
  show ?thesis by blast
qed

text \<open>Scenario A of the specification: "Burj Khalifa deals" with three passages.\<close>

theorem prompt_composer_witness:
  "make_prompt ''Burj Khalifa deals''
     (convert_passages_to_string
        [''At the Top: 149 AED'', ''Kids'' @ [CHR 0x27] @ '' ticket'', [CHR 0x22] @ ''Sky'' @ [CHR 0x22] @ '' lounge'']) =
   prompt_head @ ''Burj Khalifa deals'' @ prompt_mid @
     ''At the Top: 149 AED\<newline>Kids ticket\<newline>Sky lounge'' @ prompt_tail"
  using prompt_composer
    [of "[''At the Top: 149 AED'', ''Kids'' @ [CHR 0x27] @ '' ticket'', [CHR 0x22] @ ''Sky'' @ [CHR 0x22] @ '' lounge'']"
        "''Burj Khalifa deals''", THEN conjunct2, THEN conjunct1]
  by (simp add: convert_passages_to_string_def)

subsection \<open>C6: the number of results requested\<close>

text \<open>
  Claim C6. The retriever makes one call of the store, for the one query text, and asks for
  \<open>n_results\<close> documents: 10 when the caller omits the argument, the caller's number
  otherwise. A turn of \<^verbatim>\<open>main\<close> asks for 5.
\<close>

theorem retriever_requests_n_results:
  "filter is_db_query (fst (get_relevant_passages query db None)) = [DbQuery [query] 10]
   \<and> filter is_db_query (fst (get_relevant_passages query db (Some n))) = [DbQuery [query] n]
   \<and> (user_query \<noteq> [] \<longrightarrow>
        filter is_db_query (trace (main db genai user_query st)) = [DbQuery [user_query] 5])"
  using get_relevant_passages_events [of query db None]
        get_relevant_passages_events [of query db "Some n"]
        main_db_query [of user_query db genai st]
  by simp

theorem retriever_requests_n_results_witness:
  "filter is_db_query (fst (get_relevant_passages ''desert safari'' (store_with []) None)) =
     [DbQuery [''desert safari''] 10]
   \<and> filter is_db_query
        (trace (main (store_with []) answering_model ''desert safari'' session_start)) =
     [DbQuery [''desert safari''] 5]"
  using retriever_requests_n_results
          [of "''desert safari''" "store_with []" 5 "''desert safari''" answering_model session_start]
  by simp

subsection \<open>C8: rendering the log\<close>

text \<open>
  Claim C8. A run that reaches its end renders the log it leaves behind: one
  \<^verbatim>\<open>st.markdown\<close> line per message, in the order of the log, a user message as
  \<^verbatim>\<open>**You:**\<close> and an assistant message as \<^verbatim>\<open>**DuneGuide:**\<close> before its content (the
  asterisks set the label in bold).
\<close>

theorem rendering_one_line_per_message:
  assumes "outcome (main db genai user_query st) = Inr ()"
  shows "filter is_markdown (trace (main db genai user_query st)) =
           map render_message (log_of (session (main db genai user_query st)))
         \<and> length (filter is_markdown (trace (main db genai user_query st))) =
             length (log_of (session (main db genai user_query st)))
         \<and> render_message \<lparr>role = ''user'', content = text\<rparr> = StMarkdown (''**You:** '' @ text)
         \<and> render_message \<lparr>role = ''assistant'', content = text\<rparr> =
             StMarkdown (''**DuneGuide:** '' @ text)"
  using main_markdown [OF assms] by (simp add: render_message_def)

theorem rendering_one_line_per_message_witness:
  "filter is_markdown
     (trace (main (store_with [''Dune bashing 99 AED'']) answering_model ''desert safari''
               session_start)) =
     [StMarkdown ''**You:** desert safari'', StMarkdown ''**DuneGuide:** Here are some deals.'']"
proof -
  have found: "get_relevant_passages ''desert safari'' (store_with [''Dune bashing 99 AED''])
       (Some 5) = ([DbQuery [''desert safari''] 5], Inr (Some [''Dune bashing 99 AED'']))"
    by (simp add: get_relevant_passages_def store_with_def)
  have start: "log_of session_start = []"
    by (simp add: log_of_def session_start_def)
  have run: "main (store_with [''Dune bashing 99 AED'']) answering_model ''desert safari''
       session_start =
     \<lparr>trace = [DbQuery [''desert safari''] 5] @
        [GenerateContent ''gemini-pro''
           (make_prompt ''desert safari'' (convert_passages_to_string [''Dune bashing 99 AED'']))] @
        map render_message
          [\<lparr>role = ''user'', content = ''desert safari''\<rparr>,
           \<lparr>role = ''assistant'', content = ''Here are some deals.''\<rparr>],
      session = \<lparr>conversation_history =
        Some [\<lparr>role = ''user'', content = ''desert safari''\<rparr>,
              \<lparr>role = ''assistant'', content = ''Here are some deals.''\<rparr>]\<rparr>,
      outcome = Inr ()\<rparr>"
    using main_generation_returns
            [where genai = answering_model and st = session_start
               and response_text = "''Here are some deals.''", OF _ found]
    by (simp add: answering_model_def start)
  have completed: "outcome (main (store_with [''Dune bashing 99 AED'']) answering_model
       ''desert safari'' session_start) = Inr ()"
    by (simp add: run)
  show ?thesis
    using rendering_one_line_per_message [OF completed]
    by (simp add: run log_of_def render_message_def)
qed

subsection \<open>C9: generation if and only if passages were found\<close>

text \<open>
  Claim C9. In a turn, the generation client is called if and only if the retriever returned
  a non-empty list of passages. An empty list, like \<^verbatim>\<open>None\<close>, takes the fallback branch:
  the condition \<^verbatim>\<open>if passages:\<close> tests truthiness.
\<close>

theorem generation_iff_passages_found:
  assumes "user_query \<noteq> []"
  shows "(filter is_generate_content (trace (main db genai user_query st)) \<noteq> []) =
           (\<exists>p ps. snd (get_relevant_passages user_query db (Some 5)) = Inr (Some (p # ps)))
         \<and> (snd (get_relevant_passages user_query db (Some 5)) = Inr (Some []) \<longrightarrow>
              filter is_generate_content (trace (main db genai user_query st)) = []
              \<and> log_of (session (main db genai user_query st)) =
                  log_of st @ [\<lparr>role = ''user'', content = user_query\<rparr>,
                               \<lparr>role = ''assistant'', content = fallback_text\<rparr>])"
proof (intro conjI impI)
  show "(filter is_generate_content (trace (main db genai user_query st)) \<noteq> []) =
           (\<exists>p ps. snd (get_relevant_passages user_query db (Some 5)) = Inr (Some (p # ps)))"
  proof (cases "\<exists>p ps. snd (get_relevant_passages user_query db (Some 5)) = Inr (Some (p # ps))")
    case True
    then obtain ev p ps
      where "get_relevant_passages user_query db (Some 5) = (ev, Inr (Some (p # ps)))"
      by (cases "get_relevant_passages user_query db (Some 5)") auto
    from main_generation_event [where genai = genai and st = st, OF assms this] True
    show ?thesis by simp
  next
    case False
    from main_without_generation [OF False, of genai st] False show ?thesis by simp
  qed
next
  assume empty: "snd (get_relevant_passages user_query db (Some 5)) = Inr (Some [])"
  then have "\<not> (\<exists>p ps. snd (get_relevant_passages user_query db (Some 5)) = Inr (Some (p # ps)))"
    by simp
  then show "filter is_generate_content (trace (main db genai user_query st)) = []"
    by (rule main_without_generation)
  obtain ev where "get_relevant_passages user_query db (Some 5) = (ev, Inr (Some []))"
    using empty by (cases "get_relevant_passages user_query db (Some 5)") auto
  from main_fallback [OF assms this, of genai st]
  show "log_of (session (main db genai user_query st)) =
          log_of st @ [\<lparr>role = ''user'', content = user_query\<rparr>,
                       \<lparr>role = ''assistant'', content = fallback_text\<rparr>]"
    by (simp add: log_of_def)
qed

text \<open>The empty store makes the retriever return the empty list; a store with one passage
  makes the turn call the model.\<close>

theorem generation_iff_passages_found_witness:
  "snd (get_relevant_passages ''desert safari'' (store_with []) (Some 5)) = Inr (Some [])
   \<and> filter is_generate_content
        (trace (main (store_with []) answering_model ''desert safari'' session_start)) = []
   \<and> log_of (session (main (store_with []) answering_model ''desert safari'' session_start)) =
        [\<lparr>role = ''user'', content = ''desert safari''\<rparr>,
         \<lparr>role = ''assistant'', content = fallback_text\<rparr>]
   \<and> filter is_generate_content
        (trace (main (store_with [''Dune bashing 99 AED'']) answering_model ''desert safari''
                  session_start)) \<noteq> []"
proof -
  have empty: "snd (get_relevant_passages ''desert safari'' (store_with []) (Some 5))
                 = Inr (Some [])"
    by (simp add: get_relevant_passages_def store_with_def)
  have found: "snd (get_relevant_passages ''desert safari'' (store_with [''Dune bashing 99 AED''])
       (Some 5)) = Inr (Some [''Dune bashing 99 AED''])"
    by (simp add: get_relevant_passages_def store_with_def)
  show ?thesis
    using generation_iff_passages_found
            [where user_query = "''desert safari''" and db = "store_with []"
               and genai = answering_model and st = session_start]
          generation_iff_passages_found
            [where user_query = "''desert safari''" and db = "store_with [''Dune bashing 99 AED'']"
               and genai = answering_model and st = session_start]
    by (simp add: empty found log_of_def session_start_def)
qed

subsection \<open>C10: quotes in the query\<close>

text \<open>
  Claim C10. \<^verbatim>\<open>make_prompt\<close> deletes quote characters from the context argument only. The
  query stands unchanged in the prompt, right after the head of the template, whatever
  characters it holds.
\<close>

theorem query_quotes_preserved:
  "make_prompt query relevant_passage =
     prompt_head @ query @ prompt_mid @
     filter (\<lambda>c. c \<noteq> CHR 0x27 \<and> c \<noteq> CHR 0x22) relevant_passage @ prompt_tail
   \<and> take (length query) (drop (length prompt_head) (make_prompt query relevant_passage)) = query"
  by (simp add: make_prompt_eq)

text \<open>A query and a context that both carry \<^verbatim>\<open>"\<close> and \<^verbatim>\<open>'\<close>.\<close>

theorem query_quotes_preserved_witness:
  "take 4 (drop (length prompt_head)
     (make_prompt ([CHR 0x22] @ ''a'' @ [CHR 0x27] @ ''b'') ([CHR 0x22] @ ''c'' @ [CHR 0x27] @ ''d''))) =
     [CHR 0x22] @ ''a'' @ [CHR 0x27] @ ''b''
   \<and> make_prompt ([CHR 0x22] @ ''a'' @ [CHR 0x27] @ ''b'') ([CHR 0x22] @ ''c'' @ [CHR 0x27] @ ''d'') =
       prompt_head @ ([CHR 0x22] @ ''a'' @ [CHR 0x27] @ ''b'') @ prompt_mid @ ''cd'' @ prompt_tail"
  using query_quotes_preserved
    [of "[CHR 0x22] @ ''a'' @ [CHR 0x27] @ ''b''" "[CHR 0x22] @ ''c'' @ [CHR 0x27] @ ''d''"]
  by simp

end
